theory Spec2Isabelle
  imports Complex_Main
begin

section \<open>Common modelling conventions\<close>

text \<open>
  The repository holds two scripts for the same host application:
  \<^verbatim>\<open>render_tentacle_cli.py\<close> (definitions prefixed \<open>cli_\<close> where a name
  occurs in both scripts) and \<^verbatim>\<open>tri_lobe_tentacle_generator.py\<close> (prefix
  \<open>gen_\<close>).  Python floats are modelled as real numbers; lengths are in the
  host's unit (meters) after multiplication by \<open>MM\<close>.  A host object is a record of
  the construction parameters the scripts pass to the host, together with the list of
  boolean modifiers that were applied to it.
\<close>

type_synonym vec3 = "real \<times> real \<times> real"

datatype shape =
    Cone real real real
  | Cylinder real real
  | UVSphere real
  | Cube real

datatype bool_op = UNION | DIFFERENCE

record obj =
  name :: string
  shape :: shape
  location :: vec3
  obj_scale :: vec3
  rotation_axis_angle :: "(real \<times> vec3) option"
  materials :: "string list"
  booleans :: "(bool_op \<times> string) list"
  joined :: "string list"
  hidden :: bool

definition new_obj :: "string \<Rightarrow> shape \<Rightarrow> vec3 \<Rightarrow> obj" where
  "new_obj n s l = \<lparr> name = n, shape = s, location = l, obj_scale = (1, 1, 1),
     rotation_axis_angle = None, materials = [], booleans = [], joined = [],
     hidden = False \<rparr>"

definition MM :: real where
  "MM = 0.001"

text \<open>Python's \<open>int(x)\<close> on a float truncates towards zero.\<close>

definition py_int :: "real \<Rightarrow> int" where
  "py_int x = (if 0 \<le> x then \<lfloor>x\<rfloor> else \<lceil>x\<rceil>)"

text \<open>Python's \<open>range(n)\<close>: empty when \<open>n \<le> 0\<close>.\<close>

definition py_range :: "int \<Rightarrow> nat list" where
  "py_range n = [0..<nat n]"

text \<open>Decimal rendering of a natural number, as an f-string does for an \<open>int\<close>.\<close>

definition digit :: "nat \<Rightarrow> char" where
  "digit d = ''0123456789'' ! d"

function str_nat :: "nat \<Rightarrow> string" where
  "str_nat n = (if n < 10 then [digit n] else str_nat (n div 10) @ [digit (n mod 10)])"
  by pat_completeness auto
termination
  by (relation "measure id") auto

declare str_nat.simps [simp del]

section \<open>render_tentacle_cli.py: parameters\<close>

definition cli_tentacle_len_mm :: real where
  "cli_tentacle_len_mm = 150.0"

definition cli_base_radius_mm :: real where
  "cli_base_radius_mm = 25.0"

definition cli_tip_radius_mm :: real where
  "cli_tip_radius_mm = 0.0"

definition cli_bladder_long_mm :: real where
  "cli_bladder_long_mm = 10.0"

definition cli_bladder_short_mm :: real where
  "cli_bladder_short_mm = 6.0"

definition cli_bladder_spacing_mm :: real where
  "cli_bladder_spacing_mm = 15.0"

definition cli_channel_radius_mm :: real where
  "cli_channel_radius_mm = 2.0"

definition cli_connector_radius_mm :: real where
  "cli_connector_radius_mm = 6.35"

definition cli_connector_length_mm :: real where
  "cli_connector_length_mm = 20.0"

section \<open>render_tentacle_cli.py: create\_bladders\<close>

text \<open>
  One bladder of lobe \<open>lobe\<close> with loop index \<open>i\<close>, placed at height \<open>z_pos\<close>
  on the path from \<open>(start_x, start_y)\<close> to \<open>(end_x, end_y)\<close>: the body of the inner
  loop after the \<open>break\<close> test.
\<close>

definition cli_bladder_body ::
  "nat \<Rightarrow> nat \<Rightarrow> real \<Rightarrow> real \<Rightarrow> real \<Rightarrow> real \<Rightarrow> real \<Rightarrow> real \<Rightarrow> obj" where
  "cli_bladder_body lobe i start_x start_y end_x end_y z_end z_pos =
    (let path_ratio = z_pos / z_end;
         center_x = start_x + (end_x - start_x) * path_ratio;
         center_y = start_y + (end_y - start_y) * path_ratio;
         z_ratio = z_pos / (cli_tentacle_len_mm * MM);
         tentacle_radius_at_z = cli_base_radius_mm * MM * (1.0 - z_ratio);
         size_ratio = 0.35 - (z_ratio * 0.15);
         bladder_radius0 = tentacle_radius_at_z * size_ratio;
         min_bladder_radius = 0.0005;
         max_bladder_radius = cli_bladder_short_mm * MM * 1.2;
         bladder_radius = max (min bladder_radius0 max_bladder_radius) min_bladder_radius;
         bladder = new_obj (''Bladder_L'' @ str_nat (lobe + 1) @ ''_'' @ str_nat (i + 1))
                     (UVSphere bladder_radius) (center_x, center_y, z_pos)
     in bladder \<lparr> obj_scale := (1, 1, cli_bladder_long_mm / cli_bladder_short_mm),
                  materials := [''BladderMaterial_'' @ str_nat lobe] \<rparr>)"

text \<open>The inner loop \<open>for i in range(num_bladders)\<close> with its \<open>break\<close>.\<close>

fun cli_bladder_loop ::
  "nat \<Rightarrow> real \<Rightarrow> real \<Rightarrow> real \<Rightarrow> real \<Rightarrow> real \<Rightarrow> nat list \<Rightarrow> obj list" where
  "cli_bladder_loop lobe start_x start_y end_x end_y z_end [] = []"
| "cli_bladder_loop lobe start_x start_y end_x end_y z_end (i # rest) =
    (let z_pos = (real i + 1) * cli_bladder_spacing_mm * MM in
     if z_pos \<ge> cli_tentacle_len_mm * MM - cli_bladder_spacing_mm * MM then []
     else cli_bladder_body lobe i start_x start_y end_x end_y z_end z_pos
            # cli_bladder_loop lobe start_x start_y end_x end_y z_end rest)"

text \<open>The body of the outer loop \<open>for lobe in range(3)\<close>.\<close>

definition cli_create_bladders_lobe :: "nat \<Rightarrow> obj list" where
  "cli_create_bladders_lobe lobe =
    (let num_bladders = py_int (cli_tentacle_len_mm / cli_bladder_spacing_mm) - 1;
         angle = real lobe * 2 * pi / 3 + pi / 6;
         offset_ratio_start = 0.5;
         offset_distance_start = cli_base_radius_mm * offset_ratio_start * MM;
         lobe_effect_start = sin (angle * 3) * 0.35;
         actual_offset_start = offset_distance_start * (1 + lobe_effect_start);
         start_x = actual_offset_start * cos angle;
         start_y = actual_offset_start * sin angle;
         z_end = cli_tentacle_len_mm * MM * 0.85;
         z_ratio_end = 0.85;
         offset_ratio_end = 0.5 - (0.3 * z_ratio_end);
         offset_distance_end = cli_base_radius_mm * offset_ratio_end * MM;
         lobe_effect_end = sin (angle * 3) * 0.35 * (1 - z_ratio_end ^ 3);
         actual_offset_end = offset_distance_end * (1 + lobe_effect_end);
         inward_factor = 0.4;
         end_x = actual_offset_end * cos angle * inward_factor;
         end_y = actual_offset_end * sin angle * inward_factor
     in cli_bladder_loop lobe start_x start_y end_x end_y z_end (py_range num_bladders))"

definition cli_create_bladders :: "obj list" where
  "cli_create_bladders = concat (map cli_create_bladders_lobe (py_range 3))"

section \<open>Vectors and the math library\<close>

text \<open>
  The operations of the host's vector type that the scripts call.  \<open>normalized\<close>
  of the zero vector is the zero vector (the host library raises nothing there).
\<close>

definition vsub :: "vec3 \<Rightarrow> vec3 \<Rightarrow> vec3" where
  "vsub a b = (case a of (ax, ay, az) \<Rightarrow> case b of (bx, by, bz) \<Rightarrow>
     (ax - bx, ay - by, az - bz))"

definition cross :: "vec3 \<Rightarrow> vec3 \<Rightarrow> vec3" where
  "cross a b = (case a of (ax, ay, az) \<Rightarrow> case b of (bx, by, bz) \<Rightarrow>
     (ay * bz - az * by, az * bx - ax * bz, ax * by - ay * bx))"

definition dot :: "vec3 \<Rightarrow> vec3 \<Rightarrow> real" where
  "dot a b = (case a of (ax, ay, az) \<Rightarrow> case b of (bx, by, bz) \<Rightarrow>
     ax * bx + ay * by + az * bz)"

definition vlength :: "vec3 \<Rightarrow> real" where
  "vlength a = (case a of (ax, ay, az) \<Rightarrow> sqrt (ax ^ 2 + ay ^ 2 + az ^ 2))"

definition normalized :: "vec3 \<Rightarrow> vec3" where
  "normalized a = (case a of (ax, ay, az) \<Rightarrow>
     if vlength a = 0 then (0, 0, 0)
     else (ax / vlength a, ay / vlength a, az / vlength a))"

text \<open>The Python exceptions that matter to the scripts' \<open>try\<close> blocks.\<close>

datatype exn = AttributeError | RuntimeError | OSError | ValueError | TypeError

text \<open>\<open>math.acos\<close> raises \<open>ValueError\<close> outside \<open>[-1, 1]\<close>.\<close>

definition py_acos :: "real \<Rightarrow> exn + real" where
  "py_acos x = (if - 1 \<le> x \<and> x \<le> 1 then Inr (arccos x) else Inl ValueError)"

text \<open>\<open>math.atan2(y, x)\<close> on reals (signed zeros are not modelled).\<close>

definition py_atan2 :: "real \<Rightarrow> real \<Rightarrow> real" where
  "py_atan2 y x =
    (if x > 0 then arctan (y / x)
     else if x < 0 \<and> y \<ge> 0 then arctan (y / x) + pi
     else if x < 0 \<and> y < 0 then arctan (y / x) - pi
     else if y > 0 then pi / 2
     else if y < 0 then - (pi / 2)
     else 0)"

section \<open>render_tentacle_cli.py: create\_simple\_tentacle\<close>

text \<open>The body of the loop \<open>for vert in bm.verts\<close>, on one vertex coordinate.\<close>

definition cli_deform_vert :: "vec3 \<Rightarrow> vec3" where
  "cli_deform_vert co = (case co of (x, y, z) \<Rightarrow>
    (let z_ratio = (z + cli_tentacle_len_mm / 2 * MM) / (cli_tentacle_len_mm * MM);
         angle = py_atan2 y x;
         lobe_effect = sin (angle * 3) * 0.35 * (1 - z_ratio ^ 3);
         radius = sqrt (x ^ 2 + y ^ 2)
     in if radius > 0
        then (let scale_factor = 1 + lobe_effect in (x * scale_factor, y * scale_factor, z))
        else (x, y, z)))"

text \<open>
  \<open>create_simple_tentacle\<close>: the cone object handed to the host and the vertex
  coordinates written back to its mesh.  \<open>cone_verts\<close> are the vertices of the cone
  primitive as the host made them.
\<close>

definition cli_create_simple_tentacle :: "vec3 list \<Rightarrow> obj \<times> vec3 list" where
  "cli_create_simple_tentacle cone_verts =
    (let tentacle = new_obj ''TentacleBody''
           (Cone (cli_base_radius_mm * MM) (cli_tip_radius_mm * MM) (cli_tentacle_len_mm * MM))
           (0, 0, cli_tentacle_len_mm / 2 * MM)
     in (tentacle \<lparr> materials := [''TentacleBody''] \<rparr>, map cli_deform_vert cone_verts))"

section \<open>render_tentacle_cli.py: create\_channels\<close>

text \<open>Start and end point of the channel of one lobe.\<close>

definition cli_channel_path :: "nat \<Rightarrow> vec3 \<times> vec3" where
  "cli_channel_path lobe =
    (let angle = real lobe * 2 * pi / 3 + pi / 6;
         z_start = 0;
         offset_ratio_start = 0.5;
         offset_distance_start = cli_base_radius_mm * offset_ratio_start * MM;
         lobe_effect_start = sin (angle * 3) * 0.35;
         actual_offset_start = offset_distance_start * (1 + lobe_effect_start);
         z_end = cli_tentacle_len_mm * MM * 0.85;
         z_ratio_end = 0.85;
         offset_ratio_end = 0.5 - (0.3 * z_ratio_end);
         offset_distance_end = cli_base_radius_mm * offset_ratio_end * MM;
         lobe_effect_end = sin (angle * 3) * 0.35 * (1 - z_ratio_end ^ 3);
         actual_offset_end = offset_distance_end * (1 + lobe_effect_end);
         start_x = actual_offset_start * cos angle;
         start_y = actual_offset_start * sin angle;
         inward_factor = 0.4;
         end_x = actual_offset_end * cos angle * inward_factor;
         end_y = actual_offset_end * sin angle * inward_factor
     in ((start_x, start_y, z_start), (end_x, end_y, z_end)))"

text \<open>
  The rotation that aligns the cone with the channel: \<open>None\<close> when the rotation
  step is skipped, otherwise the axis-angle pair assigned to the object.
\<close>

definition cli_direction_vector :: "vec3 \<Rightarrow> vec3 \<Rightarrow> vec3" where
  "cli_direction_vector start_p end_p = normalized (vsub end_p start_p)"

definition cli_rotation_axis :: "vec3 \<Rightarrow> vec3 \<Rightarrow> vec3" where
  "cli_rotation_axis start_p end_p = cross (0, 0, 1) (cli_direction_vector start_p end_p)"

definition cli_acos_argument :: "vec3 \<Rightarrow> vec3 \<Rightarrow> real" where
  "cli_acos_argument start_p end_p =
     min 1.0 (max (- 1.0) (dot (0, 0, 1) (cli_direction_vector start_p end_p)))"

definition cli_channel_rotation :: "vec3 \<Rightarrow> vec3 \<Rightarrow> exn + (real \<times> vec3) option" where
  "cli_channel_rotation start_p end_p =
    (let rotation_axis = cli_rotation_axis start_p end_p in
     if vlength rotation_axis > 0
     then (case py_acos (cli_acos_argument start_p end_p) of
             Inl e \<Rightarrow> Inl e
           | Inr rotation_angle \<Rightarrow> Inr (Some (rotation_angle, normalized rotation_axis)))
     else Inr None)"

definition cli_create_channel :: "nat \<Rightarrow> exn + obj" where
  "cli_create_channel lobe =
    (case cli_channel_path lobe of ((start_x, start_y, z_start), (end_x, end_y, z_end)) \<Rightarrow>
      (let channel_length =
             sqrt ((end_x - start_x) ^ 2 + (end_y - start_y) ^ 2 + (z_end - z_start) ^ 2);
           center_x = (start_x + end_x) / 2;
           center_y = (start_y + end_y) / 2;
           center_z = (z_start + z_end) / 2;
           base_tentacle_radius = cli_base_radius_mm * MM;
           tip_tentacle_radius = cli_base_radius_mm * MM * 0.15;
           base_channel_radius0 = base_tentacle_radius * 0.15;
           tip_channel_radius0 = tip_tentacle_radius * 0.10;
           base_channel_radius = min base_channel_radius0 (cli_channel_radius_mm * MM * 1.5);
           tip_channel_radius = max tip_channel_radius0 (cli_channel_radius_mm * MM * 0.1);
           channel = new_obj (''Channel_Lobe_'' @ str_nat (lobe + 1))
                       (Cone base_channel_radius tip_channel_radius channel_length)
                       (center_x, center_y, center_z)
       in case cli_channel_rotation (start_x, start_y, z_start) (end_x, end_y, z_end) of
            Inl e \<Rightarrow> Inl e
          | Inr rot \<Rightarrow>
              Inr (channel \<lparr> rotation_axis_angle := rot,
                     materials := [''ChannelMaterial_L'' @ str_nat (lobe + 1)] \<rparr>)))"

text \<open>The loop \<open>for lobe in range(3)\<close>: the first exception ends it.\<close>

fun cli_channel_loop :: "nat list \<Rightarrow> exn + obj list" where
  "cli_channel_loop [] = Inr []"
| "cli_channel_loop (lobe # rest) =
    (case cli_create_channel lobe of
       Inl e \<Rightarrow> Inl e
     | Inr channel \<Rightarrow>
        (case cli_channel_loop rest of
           Inl e \<Rightarrow> Inl e
         | Inr channels \<Rightarrow> Inr (channel # channels)))"

definition cli_create_channels :: "exn + obj list" where
  "cli_create_channels = cli_channel_loop (py_range 3)"

section \<open>Strings and paths\<close>

definition nl :: string where
  "nl = [CHR 0x0A]"

fun starts_with :: "string \<Rightarrow> string \<Rightarrow> bool" where
  "starts_with [] s = True"
| "starts_with (c # cs) [] = False"
| "starts_with (c # cs) (d # ds) = (c = d \<and> starts_with cs ds)"

text \<open>Python's \<open>sub in s\<close> on strings.\<close>

fun str_in :: "string \<Rightarrow> string \<Rightarrow> bool" where
  "str_in sub [] = (sub = [])"
| "str_in sub (c # cs) = (starts_with sub (c # cs) \<or> str_in sub cs)"

text \<open>
  Python's \<open>s.replace(old, new)\<close> for a non-empty \<open>old\<close> (the scripts only
  replace the literal \<open>.stl\<close>); an empty \<open>old\<close> leaves the string as it is here.
\<close>

function str_replace :: "string \<Rightarrow> string \<Rightarrow> string \<Rightarrow> string" where
  "str_replace old new [] = []"
| "str_replace old new (c # cs) =
    (if old \<noteq> [] \<and> starts_with old (c # cs)
     then new @ str_replace old new (drop (length old) (c # cs))
     else c # str_replace old new cs)"
  by pat_completeness auto
termination
  by (relation "measure (\<lambda>(old, new, s). length s)") auto

text \<open>\<open>os.path.join\<close> of two components on a POSIX system.\<close>

definition path_join :: "string \<Rightarrow> string \<Rightarrow> string" where
  "path_join a b =
    (if starts_with ''/'' b then b
     else if a = [] \<or> last a = CHR ''/'' then a @ b
     else a @ ''/'' @ b)"

section \<open>The host and the effects of a run\<close>

text \<open>
  A mesh face as the hand-written exporter reads it: the face normal and the stored
  coordinates of the face's vertices, in order.
\<close>

record face =
  normal :: vec3
  verts :: "vec3 list"

text \<open>
  The host is a parameter: for each fallible call the scripts make it says whether the
  call succeeds (\<open>None\<close>, or \<open>Inr\<close> with the value) or which exception it raises.
  Calls are keyed by the file path, object name or modifier name they are given.
  \<open>float_str\<close> is the text Python prints for a float.
\<close>

record host =
  select_object :: "string \<Rightarrow> exn option"
  export_mesh_stl :: "string \<Rightarrow> exn option"
  wm_stl_export :: "string \<Rightarrow> exn option"
  save_as_mainfile :: "string \<Rightarrow> exn option"
  render_render :: "string \<Rightarrow> exn option"
  non_manifold_count :: "string \<Rightarrow> exn + nat"
  bmesh_faces :: "string \<Rightarrow> exn + face list"
  write_text :: "string \<Rightarrow> string \<Rightarrow> exn option"
  modifier_apply :: "string \<Rightarrow> exn option"
  float_str :: "real \<Rightarrow> string"

text \<open>Console messages of the export, render and save functions.\<close>

datatype msg =
    MsgExported string
  | MsgExportedMethod2 string
  | MsgStlUnavailableSavedAs string
  | MsgCouldNotExport string
  | MsgRendered string
  | MsgSavedBlenderFile string
  | MsgCouldNotSaveBlenderFile exn
  | MsgNonManifoldWarning nat string
  | MsgManifold string
  | MsgExportedStatus bool string
  | MsgExportFailed string exn
  | MsgSavedAsBlenderInstead string
  | MsgAllExportMethodsFailed exn
  | MsgRenderedImage string
  | MsgRenderFailed exn

text \<open>
  What a run leaves behind: a rendered image at a path, a saved scene file at a path, an
  STL file written by a host operator (operator, object, path, \<open>global_scale\<close>), an STL
  file written by the script itself (object, path, text), a console message.
\<close>

datatype event =
    Rendered string
  | SavedBlend string
  | HostStlExport string obj string real
  | WroteStl obj string string
  | Printed msg

record run =
  created :: "obj list"
  events :: "event list"
  raised :: "exn option"

section \<open>render_tentacle_cli.py: join, export and main\<close>

definition cli_output_dir :: "string \<Rightarrow> string" where
  "cli_output_dir script_dir = path_join script_dir ''out''"

text \<open>The lobe a bladder is grouped under: the first \<open>lobe\<close> whose tag is in its name.\<close>

definition cli_bladder_lobe :: "obj \<Rightarrow> nat option" where
  "cli_bladder_lobe bladder =
     find (\<lambda>lobe. str_in (''_L'' @ str_nat (lobe + 1) @ ''_'') (name bladder)) (py_range 3)"

definition cli_join_lobe :: "obj list \<Rightarrow> obj list \<Rightarrow> nat \<Rightarrow> obj list" where
  "cli_join_lobe bladders channels lobe =
    (let lobe_bladders = filter (\<lambda>b. cli_bladder_lobe b = Some lobe) bladders;
         lobe_channels = filter (\<lambda>c. str_in (''_Lobe_'' @ str_nat (lobe + 1)) (name c)) channels
     in case lobe_channels of
          [] \<Rightarrow> []
        | lobe_channel # _ \<Rightarrow>
            if lobe_bladders \<noteq> []
            then [fold (\<lambda>bladder base_obj.
                         base_obj \<lparr> booleans := booleans base_obj @ [(UNION, name bladder)] \<rparr>)
                    lobe_bladders
                    (lobe_channel \<lparr> name := ''HydraulicSystem_Lobe_'' @ str_nat (lobe + 1) \<rparr>)]
            else [])"

definition cli_join_bladders_and_channels :: "obj list \<Rightarrow> obj list \<Rightarrow> obj list" where
  "cli_join_bladders_and_channels bladders channels =
     concat (map (cli_join_lobe bladders channels) (py_range 3))"

definition cli_export_stl :: "host \<Rightarrow> string \<Rightarrow> obj \<Rightarrow> string \<Rightarrow> event list \<times> exn option" where
  "cli_export_stl h output_dir ob filename =
    (case select_object h (name ob) of
       Some e \<Rightarrow> ([], Some e)
     | None \<Rightarrow>
        (let filepath = path_join output_dir filename in
         case export_mesh_stl h filepath of
           None \<Rightarrow>
             ([HostStlExport ''export_mesh.stl'' ob filepath 1000.0,
               Printed (MsgExported filename)], None)
         | Some AttributeError \<Rightarrow>
            (case wm_stl_export h filepath of
               None \<Rightarrow>
                 ([HostStlExport ''wm.stl_export'' ob filepath 1000.0,
                   Printed (MsgExportedMethod2 filename)], None)
             | Some AttributeError \<Rightarrow>
                (let blend_filepath = str_replace ''.stl'' ''.blend'' filepath in
                 case save_as_mainfile h blend_filepath of
                   None \<Rightarrow>
                     ([SavedBlend blend_filepath,
                       Printed (MsgStlUnavailableSavedAs blend_filepath)], None)
                 | Some e \<Rightarrow> ([Printed (MsgCouldNotExport filename)], None))
             | Some e \<Rightarrow> ([], Some e))
         | Some e \<Rightarrow> ([], Some e)))"

definition cli_render_image :: "host \<Rightarrow> string \<Rightarrow> string \<Rightarrow> string \<Rightarrow> event list \<times> exn option" where
  "cli_render_image h output_dir filename view_type =
    (let filepath = path_join output_dir filename in
     if view_type = ''camera''
     then (case render_render h filepath of
             Some e \<Rightarrow> ([], Some e)
           | None \<Rightarrow> ([Rendered filepath, Printed (MsgRendered filename)], None))
     else ([Printed (MsgRendered filename)], None))"

definition cli_save_blend_file :: "host \<Rightarrow> string \<Rightarrow> string \<Rightarrow> event list" where
  "cli_save_blend_file h output_dir filename =
    (let filepath = path_join output_dir filename in
     case save_as_mainfile h filepath of
       None \<Rightarrow> [SavedBlend filepath, Printed (MsgSavedBlenderFile filename)]
     | Some e \<Rightarrow> [Printed (MsgCouldNotSaveBlenderFile e)])"

text \<open>
  \<open>main\<close>.  Scene set-up (output directory, camera, lights, world, render settings)
  creates no mesh and writes no file, and is left out; the console messages of
  \<open>main\<close> itself are left out as well.  \<open>created\<close> lists the mesh objects made by
  the \<open>primitive_*_add\<close> calls of the run.
\<close>

definition cli_main :: "host \<Rightarrow> string \<Rightarrow> vec3 list \<Rightarrow> run" where
  "cli_main h script_dir cone_verts =
    (let output_dir = cli_output_dir script_dir;
         tentacle = fst (cli_create_simple_tentacle cone_verts);
         bladders = cli_create_bladders
     in case cli_create_channels of
          Inl e \<Rightarrow> \<lparr> created = tentacle # bladders, events = [], raised = Some e \<rparr>
        | Inr channels \<Rightarrow>
           (let combined_hydraulics = cli_join_bladders_and_channels bladders channels;
                made = tentacle # bladders @ channels
            in case cli_render_image h output_dir ''tentacle_camera_view.png'' ''camera'' of
                 (ev1, Some e) \<Rightarrow> \<lparr> created = made, events = ev1, raised = Some e \<rparr>
               | (ev1, None) \<Rightarrow>
                  (let ev2 = cli_save_blend_file h output_dir ''tentacle_complete.blend'' in
                   case cli_export_stl h output_dir tentacle ''tentacle_body.stl'' of
                     (ev3, Some e) \<Rightarrow>
                       \<lparr> created = made, events = ev1 @ ev2 @ ev3, raised = Some e \<rparr>
                   | (ev3, None) \<Rightarrow>
                      (case combined_hydraulics of
                         [] \<Rightarrow> \<lparr> created = made, events = ev1 @ ev2 @ ev3, raised = None \<rparr>
                       | first # others \<Rightarrow>
                          (let active_object = first \<lparr> joined := map name others \<rparr> in
                           case cli_export_stl h output_dir active_object
                                  ''tentacle_hydraulic_systems.stl'' of
                             (ev4, r) \<Rightarrow>
                               \<lparr> created = made, events = ev1 @ ev2 @ ev3 @ ev4,
                                 raised = r \<rparr>)))))"

section \<open>tri_lobe_tentacle_generator.py: parameters\<close>

definition gen_tentacle_len_mm :: real where
  "gen_tentacle_len_mm = 150.0"

definition gen_base_radius_mm :: real where
  "gen_base_radius_mm = 25.0"

definition gen_tip_radius_mm :: real where
  "gen_tip_radius_mm = 0.0"

definition gen_bladder_long_mm :: real where
  "gen_bladder_long_mm = 12.0"

definition gen_bladder_short_mm :: real where
  "gen_bladder_short_mm = 6.0"

definition gen_bladder_spacing_mm :: real where
  "gen_bladder_spacing_mm = 18.75"

definition gen_channel_radius_mm :: real where
  "gen_channel_radius_mm = 2.0"

definition gen_connector_radius_mm :: real where
  "gen_connector_radius_mm = 6.35"

definition gen_connector_length_mm :: real where
  "gen_connector_length_mm = 20.0"

definition build_volume_mm :: vec3 where
  "build_volume_mm = (200, 200, 300)"

definition export_path :: string where
  "export_path = ''out/''"

definition export_main :: bool where
  "export_main = True"

definition export_cores :: bool where
  "export_cores = True"

definition skip_boolean_ops :: bool where
  "skip_boolean_ops = True"

section \<open>tri_lobe_tentacle_generator.py: geometry\<close>

definition create_build_volume_reference :: obj where
  "create_build_volume_reference =
    (case build_volume_mm of (bx, by, bz) \<Rightarrow>
      (new_obj ''BuildVolumeReference'' (Cube (1 * MM)) (0, 0, bz / 2 * MM))
        \<lparr> obj_scale := (bx / 2, by / 2, bz / 2) \<rparr>)"

text \<open>The body of the loop \<open>for vert in bm.verts\<close> of \<open>create_spaded_lobe_body\<close>.\<close>

definition gen_deform_vert :: "vec3 \<Rightarrow> vec3" where
  "gen_deform_vert co = (case co of (x, y, z) \<Rightarrow>
    (let z_ratio = z / (gen_tentacle_len_mm * MM) in
     if z_ratio > 0 \<and> z_ratio < 1
     then (let radius = sqrt (x ^ 2 + y ^ 2);
               angle = py_atan2 y x;
               taper_factor = 1.0 - z_ratio;
               lobe_effect = 1.0 + 0.8 * sin (angle * 3) * taper_factor;
               new_radius = radius * taper_factor * lobe_effect
           in (new_radius * cos angle, new_radius * sin angle, z))
     else (x, y, z)))"

definition create_spaded_lobe_body :: "vec3 list \<Rightarrow> obj \<times> vec3 list" where
  "create_spaded_lobe_body cylinder_verts =
    (new_obj ''TriLobeTentacleBody''
       (Cylinder (gen_base_radius_mm * MM) (gen_tentacle_len_mm * MM))
       (0, 0, gen_tentacle_len_mm / 2 * MM),
     map gen_deform_vert cylinder_verts)"

text \<open>The body of the loop \<open>for i in range(num_bladders)\<close>.\<close>

definition gen_bladder :: "nat \<Rightarrow> real \<Rightarrow> real \<Rightarrow> nat \<Rightarrow> obj" where
  "gen_bladder lobe_index center_x center_y i =
    (let z_pos = (real i + 1) * gen_bladder_spacing_mm * MM;
         z_ratio = z_pos / (gen_tentacle_len_mm * MM);
         taper_factor = 1.0 - z_ratio * (1.0 - gen_tip_radius_mm / gen_base_radius_mm);
         bladder = new_obj
           (''EnhancedBladder_L'' @ str_nat (lobe_index + 1) @ ''_'' @ str_nat (i + 1))
           (UVSphere (1 * MM)) (center_x, center_y, z_pos);
         max_radius = (gen_base_radius_mm * 0.9) * taper_factor;
         actual_short = min (gen_bladder_short_mm * taper_factor) max_radius;
         actual_long = min (gen_bladder_long_mm * taper_factor) max_radius
     in bladder \<lparr> obj_scale := (actual_short, actual_short, actual_long),
                  materials := [''BladderMaterial_L'' @ str_nat (lobe_index + 1)] \<rparr>)"

definition create_enhanced_bladder_stack :: "nat \<Rightarrow> obj list" where
  "create_enhanced_bladder_stack lobe_index =
    (let angle = real lobe_index * 2 * pi / 3;
         offset_distance = gen_base_radius_mm * 0.6 * MM;
         center_x = offset_distance * cos angle;
         center_y = offset_distance * sin angle;
         num_bladders = 8
     in map (gen_bladder lobe_index center_x center_y) (py_range num_bladders))"

definition gen_channel :: "nat \<Rightarrow> obj" where
  "gen_channel i =
    (let angle = real i * 2 * pi / 3;
         offset_distance = gen_base_radius_mm * 0.6 * MM;
         center_x = offset_distance * cos angle;
         center_y = offset_distance * sin angle;
         z_pos = gen_tentacle_len_mm * 0.5 * MM;
         channel = new_obj (''Channel_Lobe_'' @ str_nat (i + 1))
           (Cylinder (gen_channel_radius_mm * MM) (gen_tentacle_len_mm * 0.8 * MM))
           (center_x, center_y, z_pos)
     in channel \<lparr> materials := [''ChannelMaterial''] \<rparr>)"

definition create_enhanced_channels :: "obj list" where
  "create_enhanced_channels = map gen_channel (py_range 3)"

definition gen_connector :: "nat \<Rightarrow> obj" where
  "gen_connector i =
    (let angle = real i * 2 * pi / 3;
         offset_distance = gen_base_radius_mm * 0.7 * MM;
         center_x = offset_distance * cos angle;
         center_y = offset_distance * sin angle
     in new_obj (''Connector_'' @ str_nat (i + 1))
          (Cylinder (gen_connector_radius_mm * MM) (gen_connector_length_mm * MM))
          (center_x, center_y, gen_connector_length_mm / 2 * MM))"

definition create_connector_holes :: "obj list" where
  "create_connector_holes = map gen_connector (py_range 3)"

section \<open>tri_lobe_tentacle_generator.py: boolean operations\<close>

text \<open>
  \<open>subtract_voids\<close>: one \<open>DIFFERENCE\<close> modifier per void, kept on the body when the
  host applies it and removed again when applying raises.  The batches of five only
  place the host's mesh clean-up between the modifiers; the order of the voids is the
  list's.
\<close>

definition subtract_voids :: "host \<Rightarrow> obj \<Rightarrow> obj list \<Rightarrow> obj" where
  "subtract_voids h main_body voids =
     fold (\<lambda>void body.
            case modifier_apply h (''Subtract_'' @ name void) of
              None \<Rightarrow> body \<lparr> booleans := booleans body @ [(DIFFERENCE, name void)] \<rparr>
            | Some e \<Rightarrow> body)
          voids main_body"

text \<open>The loop \<open>for i in range(1, len(all_cores))\<close>: an exception ends it.\<close>

fun union_cores_loop :: "host \<Rightarrow> obj \<Rightarrow> (nat \<times> obj) list \<Rightarrow> exn + obj" where
  "union_cores_loop h main_core [] = Inr main_core"
| "union_cores_loop h main_core ((i, core) # rest) =
    (case modifier_apply h (''Union_Core_'' @ str_nat i) of
       Some e \<Rightarrow> Inl e
     | None \<Rightarrow>
         union_cores_loop h
           (main_core \<lparr> booleans := booleans main_core @ [(UNION, name core)] \<rparr>) rest)"

definition create_sacrificial_cores ::
  "host \<Rightarrow> obj list \<Rightarrow> obj list \<Rightarrow> obj list \<Rightarrow> exn + obj option" where
  "create_sacrificial_cores h bladders channels connectors =
    (if bladders = [] \<and> channels = [] \<and> connectors = [] then Inr None
     else (let all_cores = bladders @ channels @ connectors in
           case all_cores of
             [] \<Rightarrow> Inr None
           | first # others \<Rightarrow>
              (case union_cores_loop h (first \<lparr> name := ''SacrificialCores'' \<rparr>)
                      (zip [1..<length all_cores] others) of
                 Inl e \<Rightarrow> Inl e
               | Inr main_core \<Rightarrow> Inr (Some main_core))))"

section \<open>tri_lobe_tentacle_generator.py: export\<close>

text \<open>The hand-written STL text: the writes to the open file, in order.\<close>

fun write_face_verts :: "(real \<Rightarrow> string) \<Rightarrow> vec3 list \<Rightarrow> string \<Rightarrow> string" where
  "write_face_verts fs [] f = f"
| "write_face_verts fs (co # rest) f =
    (case co of (x, y, z) \<Rightarrow>
       write_face_verts fs rest
         (f @ ''      vertex '' @ fs x @ '' '' @ fs y @ '' '' @ fs z @ nl))"

fun write_faces :: "(real \<Rightarrow> string) \<Rightarrow> face list \<Rightarrow> string \<Rightarrow> string" where
  "write_faces fs [] f = f"
| "write_faces fs (fc # rest) f =
    (case normal fc of (nx, ny, nz) \<Rightarrow>
      (let f1 = f @ ''  facet normal '' @ fs nx @ '' '' @ fs ny @ '' '' @ fs nz @ nl;
           f2 = f1 @ ''    outer loop'' @ nl;
           f3 = write_face_verts fs (verts fc) f2;
           f4 = f3 @ ''    endloop'' @ nl;
           f5 = f4 @ ''  endfacet'' @ nl
       in write_faces fs rest f5))"

definition write_stl :: "(real \<Rightarrow> string) \<Rightarrow> face list \<Rightarrow> string" where
  "write_stl fs faces =
    (let f0 = ''solid tentacle'' @ nl;
         f1 = write_faces fs faces f0
     in f1 @ ''endsolid tentacle'' @ nl)"

definition validate_geometry :: "host \<Rightarrow> obj \<Rightarrow> event list \<times> (exn + bool)" where
  "validate_geometry h ob =
    (case non_manifold_count h (name ob) of
       Inl e \<Rightarrow> ([], Inl e)
     | Inr count \<Rightarrow>
         if count > 0
         then ([Printed (MsgNonManifoldWarning count (name ob))], Inr False)
         else ([Printed (MsgManifold (name ob))], Inr True))"

text \<open>The \<open>try\<close> block of \<open>export_stl\<close>: the text written, or the exception raised.\<close>

definition gen_try_write :: "host \<Rightarrow> obj \<Rightarrow> string \<Rightarrow> exn + string" where
  "gen_try_write h ob filepath =
    (case bmesh_faces h (name ob) of
       Inl e \<Rightarrow> Inl e
     | Inr faces \<Rightarrow>
        (let text = write_stl (float_str h) faces in
         case write_text h filepath text of
           Some e \<Rightarrow> Inl e
         | None \<Rightarrow> Inr text))"

definition gen_export_stl :: "host \<Rightarrow> obj \<Rightarrow> string \<Rightarrow> event list \<times> exn option" where
  "gen_export_stl h ob filename =
    (case validate_geometry h ob of
       (ev0, Inl e) \<Rightarrow> (ev0, Some e)
     | (ev0, Inr is_valid) \<Rightarrow>
        (case select_object h (name ob) of
           Some e \<Rightarrow> (ev0, Some e)
         | None \<Rightarrow>
            (let filepath = path_join export_path filename in
             case gen_try_write h ob filepath of
               Inr text \<Rightarrow>
                 (ev0 @ [WroteStl ob filepath text,
                         Printed (MsgExportedStatus is_valid filepath)], None)
             | Inl e \<Rightarrow>
                (let blend_path = str_replace ''.stl'' ''.blend'' filepath in
                 case save_as_mainfile h blend_path of
                   None \<Rightarrow>
                     (ev0 @ [Printed (MsgExportFailed filename e), SavedBlend blend_path,
                             Printed (MsgSavedAsBlenderInstead blend_path)], None)
                 | Some e2 \<Rightarrow>
                     (ev0 @ [Printed (MsgExportFailed filename e),
                             Printed (MsgAllExportMethodsFailed e2)], None)))))"

definition gen_render_image :: "host \<Rightarrow> string \<Rightarrow> event list \<times> bool" where
  "gen_render_image h filename =
    (let output_path = path_join export_path filename in
     case render_render h output_path of
       None \<Rightarrow> ([Rendered output_path, Printed (MsgRenderedImage output_path)], True)
     | Some e \<Rightarrow> ([Printed (MsgRenderFailed e)], False))"

section \<open>tri_lobe_tentacle_generator.py: main\<close>

text \<open>
  \<open>main\<close> with its local \<open>test_mode = 4\<close>, so the full generation.  Camera, light,
  world, render-engine and viewport set-up create no mesh and write no file and are left
  out, as are the console messages of \<open>main\<close> itself.  The exception handler around
  the call of \<open>main\<close> at the end of the script is the \<open>raised\<close> field.
\<close>

text \<open>The list \<open>void_objects\<close> of \<open>main\<close>: bladders, channels, connectors.\<close>

definition gen_void_objects :: "obj list" where
  "gen_void_objects =
    (let all_bladders = concat (map create_enhanced_bladder_stack (py_range 3));
         channels = create_enhanced_channels;
         connectors = create_connector_holes
     in all_bladders @ channels @ connectors)"

text \<open>
  The block \<open>if export_cores and void_objects\<close> of \<open>main\<close>: the voids are copied
  under the names \<open>..._Core\<close> and the copies united into one object.
\<close>

definition gen_sacrificial_cores :: "host \<Rightarrow> exn + obj option" where
  "gen_sacrificial_cores h =
    (let void_objects = gen_void_objects;
         cores_for_export = map (\<lambda>void. void \<lparr> name := name void @ ''_Core'' \<rparr>) void_objects
     in if export_cores \<and> void_objects \<noteq> []
        then create_sacrificial_cores h
               (filter (\<lambda>c. str_in ''Bladder'' (name c)) cores_for_export)
               (filter (\<lambda>c. str_in ''Channel'' (name c)) cores_for_export)
               (filter (\<lambda>c. str_in ''Connector'' (name c)) cores_for_export)
        else Inr None)"

definition gen_main :: "host \<Rightarrow> vec3 list \<Rightarrow> run" where
  "gen_main h cylinder_verts =
    (let build_ref = create_build_volume_reference;
         tentacle_body0 = fst (create_spaded_lobe_body cylinder_verts);
         tentacle_body1 = tentacle_body0 \<lparr> materials := [''SiliconeMaterial''] \<rparr>;
         void_objects = gen_void_objects;
         made = build_ref # tentacle_body1 # void_objects
     in case gen_sacrificial_cores h of
          Inl e \<Rightarrow> \<lparr> created = made, events = [], raised = Some e \<rparr>
        | Inr sacrificial_cores \<Rightarrow>
           (let tentacle_body =
                  (if skip_boolean_ops then tentacle_body1
                   else subtract_voids h tentacle_body1 void_objects);
                voids =
                  (if skip_boolean_ops
                   then map (\<lambda>void. void \<lparr> hidden := True \<rparr>) void_objects
                   else []);
                made2 = build_ref # tentacle_body # voids
            in case gen_render_image h ''enhanced_tentacle_render.png'' of
                 (ev1, render_success) \<Rightarrow>
                  (case (if export_main
                         then gen_export_stl h tentacle_body ''tri_lobe_tentacle.stl''
                         else ([], None)) of
                     (ev2, Some e) \<Rightarrow>
                       \<lparr> created = made2, events = ev1 @ ev2, raised = Some e \<rparr>
                   | (ev2, None) \<Rightarrow>
                      (case (if export_cores then sacrificial_cores else None) of
                         None \<Rightarrow> \<lparr> created = made2, events = ev1 @ ev2, raised = None \<rparr>
                       | Some cores \<Rightarrow>
                          (case gen_export_stl h cores ''sacrificial_cores.stl'' of
                             (ev3, r) \<Rightarrow>
                               \<lparr> created = made2, events = ev1 @ ev2 @ ev3,
                                 raised = r \<rparr>)))))"

text \<open>
  A host on which every call of the scripts succeeds: the meaning of a successful run.
\<close>

definition host_succeeds :: "host \<Rightarrow> bool" where
  "host_succeeds h \<longleftrightarrow>
     (\<forall>n. select_object h n = None) \<and> (\<forall>p. export_mesh_stl h p = None)
     \<and> (\<forall>p. wm_stl_export h p = None) \<and> (\<forall>p. save_as_mainfile h p = None)
     \<and> (\<forall>p. render_render h p = None) \<and> (\<forall>n. \<exists>k. non_manifold_count h n = Inr k)
     \<and> (\<forall>n. \<exists>faces. bmesh_faces h n = Inr faces) \<and> (\<forall>p t. write_text h p t = None)
     \<and> (\<forall>m. modifier_apply h m = None)"

section \<open>Reference definitions for the statements\<close>








text \<open>
  A host for concrete runs: every call succeeds, every object is manifold, and every
  mesh is one unit square facing up.
\<close>

definition demo_float_str :: "real \<Rightarrow> string" where
  "demo_float_str x = (if x = 0 then ''0.0'' else if x = 1 then ''1.0'' else ''?'')"

definition demo_face :: face where
  "demo_face = \<lparr> normal = (0, 0, 1), verts = [(0, 0, 0), (1, 0, 0), (1, 1, 0), (0, 1, 0)] \<rparr>"

definition ok_host :: host where
  "ok_host = \<lparr> select_object = (\<lambda>n. None),
               export_mesh_stl = (\<lambda>p. None),
               wm_stl_export = (\<lambda>p. None),
               save_as_mainfile = (\<lambda>p. None),
               render_render = (\<lambda>p. None),
               non_manifold_count = (\<lambda>n. Inr 0),
               bmesh_faces = (\<lambda>n. Inr [demo_face]),
               write_text = (\<lambda>p t. None),
               modifier_apply = (\<lambda>m. None),
               float_str = demo_float_str \<rparr>"

section \<open>Basic facts\<close>

lemmas cli_params =
  MM_def cli_tentacle_len_mm_def cli_base_radius_mm_def cli_tip_radius_mm_def
  cli_bladder_long_mm_def cli_bladder_short_mm_def cli_bladder_spacing_mm_def
  cli_channel_radius_mm_def cli_connector_radius_mm_def cli_connector_length_mm_def

lemmas gen_params =
  MM_def gen_tentacle_len_mm_def gen_base_radius_mm_def gen_tip_radius_mm_def
  gen_bladder_long_mm_def gen_bladder_short_mm_def gen_bladder_spacing_mm_def
  gen_channel_radius_mm_def gen_connector_radius_mm_def gen_connector_length_mm_def

lemma cli_num_bladders: "py_int (cli_tentacle_len_mm / cli_bladder_spacing_mm) - 1 = 9"
  by (simp add: py_int_def cli_params)

lemma length_py_range: "length (py_range n) = nat n"
  by (simp add: py_range_def)

lemma py_range_3: "py_range 3 = [0, 1, 2]"
  by (simp add: py_range_def upt_rec)

section \<open>The bladders of render_tentacle_cli.py\<close>

lemma cli_bladder_body_z:
  "snd (snd (location (cli_bladder_body lobe i sx sy ex ey ze z))) = z"
  by (simp add: cli_bladder_body_def new_obj_def Let_def)


lemma cli_bladder_loop_9:
  "cli_bladder_loop lobe sx sy ex ey ze (py_range 9) =
     map (\<lambda>i. cli_bladder_body lobe i sx sy ex ey ze ((real i + 1) * cli_bladder_spacing_mm * MM))
       (py_range 8)"
  by (simp add: py_range_def upt_rec cli_params)

text \<open>
  The bladders of one lobe lie on the path whose end points \<open>create_channels\<close>
  computes: the two functions repeat the same formulas.
\<close>

lemma cli_lobe_eq:
  "cli_create_bladders_lobe lobe =
    (case cli_channel_path lobe of ((sx, sy, zs), (ex, ey, ze)) \<Rightarrow>
       map (\<lambda>i. cli_bladder_body lobe i sx sy ex ey ze ((real i + 1) * cli_bladder_spacing_mm * MM))
         (py_range 8))"
  unfolding cli_create_bladders_lobe_def cli_channel_path_def Let_def cli_num_bladders
    cli_bladder_loop_9
  by simp

lemma cli_lobe_length: "length (cli_create_bladders_lobe lobe) = 8"
  by (simp add: cli_lobe_eq length_py_range split: prod.splits)

lemma cli_lobe_heights:
  "map (\<lambda>b. snd (snd (location b))) (cli_create_bladders_lobe lobe) =
     [15 * MM, 30 * MM, 45 * MM, 60 * MM, 75 * MM, 90 * MM, 105 * MM, 120 * MM]"
  by (simp add: cli_lobe_eq cli_bladder_body_z o_def split: prod.splits)
     (simp add: py_range_def upt_rec cli_params)


lemma cli_bladder_body_shape:
  "shape (cli_bladder_body lobe i sx sy ex ey ze z) =
     UVSphere (max (min (cli_base_radius_mm * MM * (1 - z / (cli_tentacle_len_mm * MM))
                          * (0.35 - 0.15 * (z / (cli_tentacle_len_mm * MM))))
                        (1.2 * cli_bladder_short_mm * MM)) 0.0005)"
  by (simp add: cli_bladder_body_def new_obj_def Let_def mult.commute)

lemma cli_bladder_body_location:
  "location (cli_bladder_body lobe i sx sy ex ey ze z) =
     (sx + (ex - sx) * (z / ze), sy + (ey - sy) * (z / ze), z)"
  by (simp add: cli_bladder_body_def new_obj_def Let_def)

lemma cli_create_bladders_lobes:
  "cli_create_bladders =
     cli_create_bladders_lobe 0 @ cli_create_bladders_lobe 1 @ cli_create_bladders_lobe 2"
  by (simp add: cli_create_bladders_def py_range_3)

lemma cli_bladder_in_lobe:
  assumes "b \<in> set (cli_create_bladders_lobe lobe)"
  shows "\<exists>i sx sy zs ex ey ze z. cli_channel_path lobe = ((sx, sy, zs), (ex, ey, ze))
           \<and> b = cli_bladder_body lobe i sx sy ex ey ze z"
proof -
  obtain sx sy zs ex ey ze where p: "cli_channel_path lobe = ((sx, sy, zs), (ex, ey, ze))"
    by (metis prod_cases3)
  from assms obtain i where "b = cli_bladder_body lobe i sx sy ex ey ze
      ((real i + 1) * cli_bladder_spacing_mm * MM)"
    by (auto simp: cli_lobe_eq p)
  with p show ?thesis by blast
qed

lemma cli_bladder_in:
  assumes "b \<in> set cli_create_bladders"
  shows "\<exists>lobe i sx sy ex ey ze z. b = cli_bladder_body lobe i sx sy ex ey ze z"
proof -
  from assms obtain lobe where "b \<in> set (cli_create_bladders_lobe lobe)"
    by (auto simp: cli_create_bladders_lobes)
  from cli_bladder_in_lobe[OF this] show ?thesis by blast
qed

lemma clamp_bounds:
  fixes lo hi x :: real
  assumes "lo \<le> hi"
  shows "lo \<le> max (min x hi) lo" "max (min x hi) lo \<le> hi"
  using assms by auto

text \<open>
  Claim C6.  Every bladder that \<open>create_bladders\<close> makes is a sphere whose radius
  is the local tentacle radius \<open>base_radius_mm * MM * (1 - z_ratio)\<close> times the size
  ratio \<open>0.35 - 0.15 * z_ratio\<close> (0.35 at \<open>z_ratio = 0\<close>, 0.20 at
  \<open>z_ratio = 1\<close>), clamped from above by \<open>1.2 * bladder_short_mm * MM = 0.0072\<close>
  and then from below by \<open>0.0005\<close>; the final radius lies in
  \<open>[0.0005, 0.0072]\<close>.  Here \<open>z_ratio\<close> is the bladder's height over the
  tentacle length.
\<close>

theorem bladder_radius_clamped:
  assumes "b \<in> set cli_create_bladders"
  shows "(let z_ratio = snd (snd (location b)) / (cli_tentacle_len_mm * MM);
              tentacle_radius = cli_base_radius_mm * MM * (1 - z_ratio);
              size_ratio = 0.35 - 0.15 * z_ratio;
              r = max (min (tentacle_radius * size_ratio) (1.2 * cli_bladder_short_mm * MM)) 0.0005
          in shape b = UVSphere r \<and> 0.0005 \<le> r \<and> r \<le> 0.0072)
         \<and> 1.2 * cli_bladder_short_mm * MM = 0.0072
         \<and> 0.5 * MM = 0.0005
         \<and> 0.35 - 0.15 * (0::real) = 0.35 \<and> 0.35 - 0.15 * (1::real) = 0.20"
proof -
  from cli_bladder_in[OF assms] obtain lobe i sx sy ex ey ze z
    where b: "b = cli_bladder_body lobe i sx sy ex ey ze z" by blast
  have hi: "1.2 * cli_bladder_short_mm * MM = 0.0072" by (simp add: cli_params)
  have z: "snd (snd (location b)) = z" by (simp add: b cli_bladder_body_z)
  have sh: "shape b = UVSphere (max (min (cli_base_radius_mm * MM * (1 - z / (cli_tentacle_len_mm * MM))
                          * (0.35 - 0.15 * (z / (cli_tentacle_len_mm * MM))))
                        (1.2 * cli_bladder_short_mm * MM)) 0.0005)"
    by (simp only: b cli_bladder_body_shape)
  have lohi: "(0.0005::real) \<le> 0.0072" by simp
  have a: "0.5 * MM = 0.0005" "0.35 - 0.15 * (0::real) = 0.35" "0.35 - 0.15 * (1::real) = 0.20"
    by (simp_all add: MM_def)
  show ?thesis
    unfolding Let_def z hi
    using sh[unfolded hi] clamp_bounds[OF lohi] a by blast
qed

text \<open>
  The first bladder (lobe 1, height 15 mm): the product is 0.0075375, so the clamp is
  active and the radius is the upper bound.
\<close>

theorem bladder_radius_clamped_witness:
  "hd cli_create_bladders \<in> set cli_create_bladders
   \<and> shape (hd cli_create_bladders) = UVSphere 0.0072"
proof -
  have l: "cli_create_bladders_lobe 0 \<noteq> []" using cli_lobe_length[of 0] by auto
  then have ne: "cli_create_bladders \<noteq> []"
    by (simp add: cli_create_bladders_lobes)
  then have m: "hd cli_create_bladders \<in> set cli_create_bladders" by simp
  have "map (\<lambda>b. snd (snd (location b))) (cli_create_bladders_lobe 0) \<noteq> []" using l by simp
  have h: "hd cli_create_bladders = hd (cli_create_bladders_lobe 0)"
    using l by (simp add: cli_create_bladders_lobes)
  have "snd (snd (location (hd (cli_create_bladders_lobe 0)))) =
           hd (map (\<lambda>b. snd (snd (location b))) (cli_create_bladders_lobe 0))"
    using l by (simp add: hd_map)
  then have z: "snd (snd (location (hd cli_create_bladders))) = 15 * MM"
    by (simp add: h cli_lobe_heights)
  show ?thesis
    using bladder_radius_clamped[OF m] m unfolding Let_def z by (simp add: cli_params)
qed

section \<open>Bladder centres lie on the channel path\<close>

text \<open>
  Claim C5.  In the command-line script every bladder of a lobe, created at height
  \<open>z\<close>, has its centre \<open>(x, y)\<close> at
  \<open>start + (end - start) * (z / z_end)\<close>, where \<open>start\<close> (at height 0) and
  \<open>end\<close> (at height \<open>z_end = 0.85 * tentacle length\<close>) are the end points that
  \<open>create_channels\<close> computes for that lobe: angle \<open>lobe * 2 pi / 3\<close> plus
  30 degrees, radial offset scaled by \<open>1 + sin (3 * angle) * 0.35\<close> (times
  \<open>1 - 0.85 ^ 3\<close> at the end), and the end point pulled inward by the factor 0.4.
\<close>

theorem bladder_centers:
  assumes "b \<in> set (cli_create_bladders_lobe lobe)"
  shows "(case cli_channel_path lobe of ((sx, sy, zs), (ex, ey, ze)) \<Rightarrow>
           case location b of (x, y, z) \<Rightarrow>
             x = sx + (ex - sx) * (z / ze) \<and> y = sy + (ey - sy) * (z / ze)
             \<and> zs = 0 \<and> ze = 0.85 * (cli_tentacle_len_mm * MM))
         \<and> cli_channel_path lobe =
             (let angle = real lobe * 2 * pi / 3 + pi / 6;
                  s = cli_base_radius_mm * 0.5 * MM * (1 + sin (angle * 3) * 0.35);
                  e = cli_base_radius_mm * (0.5 - 0.3 * 0.85) * MM
                        * (1 + sin (angle * 3) * 0.35 * (1 - 0.85 ^ 3))
              in ((s * cos angle, s * sin angle, 0),
                  (e * cos angle * 0.4, e * sin angle * 0.4, cli_tentacle_len_mm * MM * 0.85)))
         \<and> pi / 6 = 30 * (pi / 180)
         \<and> cli_create_bladders =
             cli_create_bladders_lobe 0 @ cli_create_bladders_lobe 1 @ cli_create_bladders_lobe 2"
proof -
  from cli_bladder_in_lobe[OF assms] obtain i sx sy zs ex ey ze z
    where p: "cli_channel_path lobe = ((sx, sy, zs), (ex, ey, ze))"
      and b: "b = cli_bladder_body lobe i sx sy ex ey ze z" by blast
  have zs: "zs = 0" and ze: "ze = 0.85 * (cli_tentacle_len_mm * MM)"
    using p by (simp_all add: cli_channel_path_def Let_def)
  have 1: "(case cli_channel_path lobe of ((sx, sy, zs), (ex, ey, ze)) \<Rightarrow>
           case location b of (x, y, z) \<Rightarrow>
             x = sx + (ex - sx) * (z / ze) \<and> y = sy + (ey - sy) * (z / ze)
             \<and> zs = 0 \<and> ze = 0.85 * (cli_tentacle_len_mm * MM))"
    unfolding p b cli_bladder_body_location using zs ze by simp
  have 2: "cli_channel_path lobe =
             (let angle = real lobe * 2 * pi / 3 + pi / 6;
                  s = cli_base_radius_mm * 0.5 * MM * (1 + sin (angle * 3) * 0.35);
                  e = cli_base_radius_mm * (0.5 - 0.3 * 0.85) * MM
                        * (1 + sin (angle * 3) * 0.35 * (1 - 0.85 ^ 3))
              in ((s * cos angle, s * sin angle, 0),
                  (e * cos angle * 0.4, e * sin angle * 0.4, cli_tentacle_len_mm * MM * 0.85)))"
    by (simp add: cli_channel_path_def Let_def)
  have 3: "pi / 6 = 30 * (pi / 180)" by simp
  show ?thesis using 1 2 3 cli_create_bladders_lobes by blast
qed

text \<open>The first bladder of lobe 1: height 15 mm, that is 2/17 of the way along the path.\<close>

theorem bladder_centers_witness:
  "hd (cli_create_bladders_lobe 0) \<in> set (cli_create_bladders_lobe 0)
   \<and> location (hd (cli_create_bladders_lobe 0)) =
       (fst (fst (cli_channel_path 0))
          + (fst (snd (cli_channel_path 0)) - fst (fst (cli_channel_path 0))) * (2 / 17),
        fst (snd (fst (cli_channel_path 0)))
          + (fst (snd (snd (cli_channel_path 0))) - fst (snd (fst (cli_channel_path 0)))) * (2 / 17),
        15 * MM)"
proof -
  have l: "cli_create_bladders_lobe 0 \<noteq> []" using cli_lobe_length[of 0] by auto
  then have m: "hd (cli_create_bladders_lobe 0) \<in> set (cli_create_bladders_lobe 0)" by simp
  have "snd (snd (location (hd (cli_create_bladders_lobe 0)))) =
           hd (map (\<lambda>b. snd (snd (location b))) (cli_create_bladders_lobe 0))"
    using l by (simp add: hd_map)
  then have z: "snd (snd (location (hd (cli_create_bladders_lobe 0)))) = 15 * MM"
    by (simp add: cli_lobe_heights)
  obtain x y z' where loc: "location (hd (cli_create_bladders_lobe 0)) = (x, y, z')"
    by (metis prod_cases3)
  obtain sx sy zs ex ey ze where p: "cli_channel_path 0 = ((sx, sy, zs), (ex, ey, ze))"
    by (metis prod_cases3)
  have z': "z' = 15 * MM" using z loc by simp
  from bladder_centers[OF m] have
    "x = sx + (ex - sx) * (z' / ze) \<and> y = sy + (ey - sy) * (z' / ze)
             \<and> zs = 0 \<and> ze = 0.85 * (cli_tentacle_len_mm * MM)"
    unfolding p loc by simp
  then have xy: "x = sx + (ex - sx) * (z' / ze)" "y = sy + (ey - sy) * (z' / ze)"
    and ze: "ze = 0.85 * (cli_tentacle_len_mm * MM)" by simp_all
  have q: "z' / ze = 2 / 17" unfolding z' ze by (simp add: cli_params)
  show ?thesis using m z' xy unfolding loc p q by simp
qed

section \<open>The tri-lobe deformation of render_tentacle_cli.py\<close>

text \<open>
  Claim C7.  \<open>create_simple_tentacle\<close> multiplies the \<open>x\<close> and \<open>y\<close>
  coordinate of every cone vertex by \<open>1 + 0.35 * sin (3 * atan2 (y, x)) * (1 - z_ratio ^ 3)\<close>
  with \<open>z_ratio = (z + L / 2) / L\<close> and \<open>L\<close> the tentacle length in meters; a
  vertex whose radius \<open>sqrt (x ^ 2 + y ^ 2)\<close> is 0 is left as it is, and no
  \<open>z\<close> coordinate changes.
\<close>

theorem tri_lobe_deformation:
  "cli_deform_vert (x, y, z) =
     (let L = cli_tentacle_len_mm * MM;
          z_ratio = (z + L / 2) / L;
          factor = 1 + 0.35 * sin (3 * py_atan2 y x) * (1 - z_ratio ^ 3)
      in if sqrt (x ^ 2 + y ^ 2) = 0 then (x, y, z) else (x * factor, y * factor, z))
   \<and> snd (snd (cli_deform_vert (x, y, z))) = z
   \<and> snd (cli_create_simple_tentacle vs) = map cli_deform_vert vs"
proof -
  have 1: "cli_deform_vert (x, y, z) =
     (let L = cli_tentacle_len_mm * MM;
          z_ratio = (z + L / 2) / L;
          factor = 1 + 0.35 * sin (3 * py_atan2 y x) * (1 - z_ratio ^ 3)
      in if sqrt (x ^ 2 + y ^ 2) = 0 then (x, y, z) else (x * factor, y * factor, z))"
  proof (cases "x = 0 \<and> y = 0")
    case True
    then show ?thesis by (simp add: cli_deform_vert_def Let_def)
  next
    case False
    then have "0 < x ^ 2 + y ^ 2" "x ^ 2 + y ^ 2 \<noteq> 0"
      by (auto simp: sum_power2_gt_zero_iff)
    then show ?thesis
      by (simp add: cli_deform_vert_def Let_def mult.commute mult.left_commute)
  qed
  have 2: "snd (snd (cli_deform_vert (x, y, z))) = z"
    by (simp add: cli_deform_vert_def Let_def)
  have 3: "snd (cli_create_simple_tentacle vs) = map cli_deform_vert vs"
    by (simp add: cli_create_simple_tentacle_def Let_def)
  show ?thesis using 1 2 3 by blast
qed

section \<open>The channel rotation of render_tentacle_cli.py\<close>

lemma cli_acos_argument_bounds:
  "- 1 \<le> cli_acos_argument p q" "cli_acos_argument p q \<le> 1"
  by (simp_all add: cli_acos_argument_def)

lemma cli_channel_rotation_total: "\<exists>r. cli_channel_rotation p q = Inr r"
  using cli_acos_argument_bounds[of p q]
  by (simp add: cli_channel_rotation_def py_acos_def Let_def)

lemma cli_channel_rotation_value:
  "cli_channel_rotation p q =
     (if vlength (cli_rotation_axis p q) = 0 then Inr None
      else Inr (Some (arccos (cli_acos_argument p q), normalized (cli_rotation_axis p q))))"
proof -
  have "0 \<le> vlength (cli_rotation_axis p q)"
    by (cases "cli_rotation_axis p q") (simp add: vlength_def)
  then have "(vlength (cli_rotation_axis p q) > 0) = (vlength (cli_rotation_axis p q) \<noteq> 0)"
    by linarith
  then show ?thesis
    using cli_acos_argument_bounds[of p q]
    by (simp add: cli_channel_rotation_def py_acos_def Let_def)
qed

lemma vlength_zero_iff: "vlength (a, b, c) = 0 \<longleftrightarrow> a = 0 \<and> b = 0 \<and> c = 0"
proof -
  have "a\<^sup>2 + b\<^sup>2 + c\<^sup>2 = 0 \<longleftrightarrow> a = 0 \<and> b = 0 \<and> c = 0"
    by (smt (verit) zero_le_power2 power2_eq_iff_nonneg sum_power2_eq_zero_iff zero_eq_power2)
  then show ?thesis by (simp add: vlength_def)
qed

lemma vlength_nonneg: "0 \<le> vlength v"
  by (cases v) (simp add: vlength_def)

lemma cli_direction_nonzero:
  assumes "qz \<noteq> pz"
  shows "vlength (vsub (qx, qy, qz) (px, py, pz)) > 0"
proof -
  have "vlength (vsub (qx, qy, qz) (px, py, pz)) \<noteq> 0"
    using assms by (simp add: vsub_def vlength_zero_iff)
  then show ?thesis using vlength_nonneg[of "vsub (qx, qy, qz) (px, py, pz)"] by linarith
qed

lemma cli_rotation_axis_zero_iff:
  assumes "qz \<noteq> pz"
  shows "vlength (cli_rotation_axis (px, py, pz) (qx, qy, qz)) = 0 \<longleftrightarrow> px = qx \<and> py = qy"
proof -
  let ?d = "vsub (qx, qy, qz) (px, py, pz)"
  have len: "vlength ?d \<noteq> 0" using cli_direction_nonzero[OF assms, of qx qy px py] by simp
  have d: "?d = (qx - px, qy - py, qz - pz)" by (simp add: vsub_def)
  have "cli_rotation_axis (px, py, pz) (qx, qy, qz) =
          (- ((qy - py) / vlength ?d), (qx - px) / vlength ?d, 0)"
    using len by (simp add: cli_rotation_axis_def cli_direction_vector_def normalized_def cross_def d)
  then show ?thesis using len by (auto simp: vlength_zero_iff)
qed

lemma cli_create_channel_ok: "\<exists>c. cli_create_channel lobe = Inr c"
proof -
  obtain sx sy zs ex ey ze where p: "cli_channel_path lobe = ((sx, sy, zs), (ex, ey, ze))"
    by (metis prod_cases3)
  obtain r where "cli_channel_rotation (sx, sy, zs) (ex, ey, ze) = Inr r"
    using cli_channel_rotation_total by blast
  then show ?thesis by (simp add: cli_create_channel_def p Let_def)
qed

lemma cli_channel_loop_ok: "\<exists>cs. cli_channel_loop ls = Inr cs \<and> length cs = length ls"
proof (induction ls)
  case Nil
  then show ?case by simp
next
  case (Cons l ls)
  obtain c where "cli_create_channel l = Inr c" using cli_create_channel_ok by blast
  with Cons show ?case by auto
qed

lemma cli_create_channels_ok: "\<exists>cs. cli_create_channels = Inr cs \<and> length cs = 3"
  using cli_channel_loop_ok[of "py_range 3"] by (simp add: cli_create_channels_def length_py_range)

text \<open>
  Claim C10.  The rotation computation of \<open>create_channels\<close> never raises: for
  every pair of points it returns a value, since the argument handed to
  \<open>math.acos\<close> is clamped into \<open>[-1, 1]\<close>.  For the points the function
  builds (start at height 0, end at height \<open>0.85 * tentacle length\<close>, any
  \<open>x\<close> and \<open>y\<close>) the direction that is normalised is never the zero
  vector; the cross product with \<open>(0, 0, 1)\<close> has length zero exactly when the
  channel is parallel to the z axis, and then the rotation step is skipped; otherwise
  the axis that is normalised has positive length and the angle is the arc cosine of the
  clamped dot product.  Hence each channel and the list of three channels are created
  without an exception.
\<close>

theorem channel_rotation_total:
  "(\<exists>r. cli_channel_rotation p q = Inr r)
   \<and> - 1 \<le> cli_acos_argument p q \<and> cli_acos_argument p q \<le> 1
   \<and> (let s = (sx, sy, 0); e = (ex, ey, cli_tentacle_len_mm * MM * 0.85) in
        vlength (vsub e s) > 0
        \<and> (vlength (cli_rotation_axis s e) = 0) = (sx = ex \<and> sy = ey)
        \<and> cli_channel_rotation s e =
            (if sx = ex \<and> sy = ey then Inr None
             else Inr (Some (arccos (cli_acos_argument s e), normalized (cli_rotation_axis s e)))))
   \<and> snd (snd (fst (cli_channel_path lobe))) = 0
   \<and> snd (snd (snd (cli_channel_path lobe))) = cli_tentacle_len_mm * MM * 0.85
   \<and> (\<exists>c. cli_create_channel lobe = Inr c)
   \<and> (\<exists>cs. cli_create_channels = Inr cs \<and> length cs = 3)"
proof -
  have z: "cli_tentacle_len_mm * MM * 0.85 \<noteq> 0" by (simp add: cli_params)
  have 1: "vlength (vsub (ex, ey, cli_tentacle_len_mm * MM * 0.85) (sx, sy, 0)) > 0"
    by (rule cli_direction_nonzero[OF z])
  have 2: "(vlength (cli_rotation_axis (sx, sy, 0) (ex, ey, cli_tentacle_len_mm * MM * 0.85)) = 0)
             = (sx = ex \<and> sy = ey)"
    by (rule cli_rotation_axis_zero_iff[OF z])
  have 3: "cli_channel_rotation (sx, sy, 0) (ex, ey, cli_tentacle_len_mm * MM * 0.85) =
            (if sx = ex \<and> sy = ey then Inr None
             else Inr (Some (arccos (cli_acos_argument (sx, sy, 0) (ex, ey, cli_tentacle_len_mm * MM * 0.85)),
                    normalized (cli_rotation_axis (sx, sy, 0) (ex, ey, cli_tentacle_len_mm * MM * 0.85)))))"
    unfolding cli_channel_rotation_value 2 by simp
  have 4: "snd (snd (fst (cli_channel_path lobe))) = 0"
     "snd (snd (snd (cli_channel_path lobe))) = cli_tentacle_len_mm * MM * 0.85"
    by (simp_all add: cli_channel_path_def Let_def)
  show ?thesis
    unfolding Let_def
    using cli_channel_rotation_total cli_acos_argument_bounds 1 2 3 4
      cli_create_channel_ok cli_create_channels_ok by blast
qed

text \<open>A channel straight up the z axis: the rotation step is skipped.\<close>

theorem channel_rotation_total_witness:
  "cli_channel_rotation (0, 0, 0) (0, 0, cli_tentacle_len_mm * MM * 0.85) = Inr None"
  using channel_rotation_total[of "(0, 0, 0)" "(0, 0, 0)" 0 0 0 0 0]
  by (simp add: Let_def)

section \<open>The hand-written STL exporter\<close>





lemma cli_export_stl_method1:
  assumes "select_object h (name ob) = None"
    and "export_mesh_stl h (path_join out filename) = None"
  shows "cli_export_stl h out ob filename =
           ([HostStlExport ''export_mesh.stl'' ob (path_join out filename) 1000,
             Printed (MsgExported filename)], None)"
  using assms by (simp add: cli_export_stl_def Let_def)





section \<open>Exceptions in export\_stl\<close>

lemma cli_export_stl_raised:
  assumes "select_object h (name ob) = None"
  shows "snd (cli_export_stl h out ob filename) =
          (case export_mesh_stl h (path_join out filename) of
             None \<Rightarrow> None
           | Some AttributeError \<Rightarrow>
               (case wm_stl_export h (path_join out filename) of
                  None \<Rightarrow> None
                | Some AttributeError \<Rightarrow> None
                | Some e \<Rightarrow> Some e)
           | Some e \<Rightarrow> Some e)"
  using assms
  by (simp add: cli_export_stl_def Let_def split: option.splits exn.splits)

lemma cli_export_stl_fallback:
  assumes "select_object h (name ob) = None"
    and "export_mesh_stl h (path_join out filename) = Some AttributeError"
    and "wm_stl_export h (path_join out filename) = Some AttributeError"
  shows "cli_export_stl h out ob filename =
          (case save_as_mainfile h (str_replace ''.stl'' ''.blend'' (path_join out filename)) of
             None \<Rightarrow> [SavedBlend (str_replace ''.stl'' ''.blend'' (path_join out filename)),
                       Printed (MsgStlUnavailableSavedAs
                         (str_replace ''.stl'' ''.blend'' (path_join out filename)))]
           | Some e \<Rightarrow> [Printed (MsgCouldNotExport filename)],
           None)"
  using assms
  by (simp add: cli_export_stl_def Let_def split: option.splits)

lemma gen_export_stl_returns:
  assumes "non_manifold_count h (name ob) = Inr n"
    and "select_object h (name ob) = None"
  shows "snd (gen_export_stl h ob filename) = None"
  using assms
  by (simp add: gen_export_stl_def validate_geometry_def Let_def split: sum.splits option.splits)

lemma gen_export_stl_fallback:
  assumes "non_manifold_count h (name ob) = Inr n"
    and "select_object h (name ob) = None"
    and "gen_try_write h ob (path_join export_path filename) = Inl e"
  shows "fst (gen_export_stl h ob filename) =
          [Printed (if n > 0 then MsgNonManifoldWarning n (name ob) else MsgManifold (name ob)),
           Printed (MsgExportFailed filename e)]
          @ (case save_as_mainfile h
                    (str_replace ''.stl'' ''.blend'' (path_join export_path filename)) of
               None \<Rightarrow>
                 [SavedBlend (str_replace ''.stl'' ''.blend'' (path_join export_path filename)),
                  Printed (MsgSavedAsBlenderInstead
                    (str_replace ''.stl'' ''.blend'' (path_join export_path filename)))]
             | Some e2 \<Rightarrow> [Printed (MsgAllExportMethodsFailed e2)])"
  using assms
  by (simp add: gen_export_stl_def validate_geometry_def Let_def split: option.splits)

text \<open>
  Claim C4 as stated fails for the command-line script: its \<open>export_stl\<close> catches
  \<open>AttributeError\<close> only.  When the first STL operator exists but fails (the host
  reports a failed write as \<open>RuntimeError\<close>), nothing is caught, no other method
  is tried and the exception reaches the caller.
\<close>

theorem export_stl_raises_counterexample:
  "cli_export_stl (ok_host \<lparr> export_mesh_stl := (\<lambda>p. Some RuntimeError) \<rparr>) ''/repo/out''
      (fst (cli_create_simple_tentacle [])) ''tentacle_body.stl'' = ([], Some RuntimeError)"
  by (simp add: cli_export_stl_def ok_host_def Let_def)

text \<open>
  Claim C4, amended.  Generator script: once geometry validation and selection, which
  stand before the \<open>try\<close> block, have succeeded, \<open>export_stl\<close> returns
  normally whatever happens; when reading the mesh or writing the file raises, it
  reports the failure, tries to save a scene file instead and, if that raises too,
  reports that all methods failed.  Command-line script: once selection has succeeded,
  \<open>export_stl\<close> goes from the first STL operator to the second and from the
  second to saving a scene file only on \<open>AttributeError\<close> (the operator does not
  exist); a failure of that save is caught and reported; any other exception of either
  STL operator is raised to the caller.
\<close>

theorem export_stl_best_effort:
  "(non_manifold_count h (name ob) = Inr n \<and> select_object h (name ob) = None
      \<longrightarrow> snd (gen_export_stl h ob filename) = None
        \<and> (\<forall>e. gen_try_write h ob (path_join export_path filename) = Inl e \<longrightarrow>
             fst (gen_export_stl h ob filename) =
               [Printed (if n > 0 then MsgNonManifoldWarning n (name ob) else MsgManifold (name ob)),
                Printed (MsgExportFailed filename e)]
               @ (case save_as_mainfile h
                         (str_replace ''.stl'' ''.blend'' (path_join export_path filename)) of
                    None \<Rightarrow>
                      [SavedBlend (str_replace ''.stl'' ''.blend'' (path_join export_path filename)),
                       Printed (MsgSavedAsBlenderInstead
                         (str_replace ''.stl'' ''.blend'' (path_join export_path filename)))]
                  | Some e2 \<Rightarrow> [Printed (MsgAllExportMethodsFailed e2)])))
   \<and> (select_object h (name ob) = None
      \<longrightarrow> snd (cli_export_stl h out ob filename) =
            (case export_mesh_stl h (path_join out filename) of
               None \<Rightarrow> None
             | Some AttributeError \<Rightarrow>
                 (case wm_stl_export h (path_join out filename) of
                    None \<Rightarrow> None
                  | Some AttributeError \<Rightarrow> None
                  | Some e \<Rightarrow> Some e)
             | Some e \<Rightarrow> Some e)
        \<and> (export_mesh_stl h (path_join out filename) = Some AttributeError
             \<and> wm_stl_export h (path_join out filename) = Some AttributeError \<longrightarrow>
            cli_export_stl h out ob filename =
              (case save_as_mainfile h (str_replace ''.stl'' ''.blend'' (path_join out filename)) of
                 None \<Rightarrow> [SavedBlend (str_replace ''.stl'' ''.blend'' (path_join out filename)),
                           Printed (MsgStlUnavailableSavedAs
                             (str_replace ''.stl'' ''.blend'' (path_join out filename)))]
               | Some e \<Rightarrow> [Printed (MsgCouldNotExport filename)],
               None)))"
  using gen_export_stl_returns gen_export_stl_fallback cli_export_stl_raised
    cli_export_stl_fallback by blast

lemma replace_demo:
  "str_replace ''.stl'' ''.blend'' ''/repo/out/tentacle_body.stl'' = ''/repo/out/tentacle_body.blend''"
  "str_replace ''.stl'' ''.blend'' ''out/tri_lobe_tentacle.stl'' = ''out/tri_lobe_tentacle.blend''"
  by simp_all


lemma demo_paths:
  "path_join ''/repo/out'' ''tentacle_body.stl'' = ''/repo/out/tentacle_body.stl''"
  "path_join export_path ''tri_lobe_tentacle.stl'' = ''out/tri_lobe_tentacle.stl''"
  by (simp_all add: path_join_def export_path_def)

text \<open>
  Two runs: a host without either STL operator (command-line script: the scene file is
  saved), and a host where the file cannot be written and the scene cannot be saved
  (generator script: two failure messages, normal return).
\<close>

theorem export_stl_best_effort_witness:
  "cli_export_stl
      (ok_host \<lparr> export_mesh_stl := (\<lambda>p. Some AttributeError),
                 wm_stl_export := (\<lambda>p. Some AttributeError) \<rparr>)
      ''/repo/out'' (fst (cli_create_simple_tentacle [])) ''tentacle_body.stl'' =
     ([SavedBlend ''/repo/out/tentacle_body.blend'',
       Printed (MsgStlUnavailableSavedAs ''/repo/out/tentacle_body.blend'')], None)
   \<and> gen_export_stl
      (ok_host \<lparr> write_text := (\<lambda>p t. Some OSError),
                 save_as_mainfile := (\<lambda>p. Some RuntimeError) \<rparr>)
      (fst (create_spaded_lobe_body [])) ''tri_lobe_tentacle.stl'' =
     ([Printed (MsgManifold ''TriLobeTentacleBody''),
       Printed (MsgExportFailed ''tri_lobe_tentacle.stl'' OSError),
       Printed (MsgAllExportMethodsFailed RuntimeError)], None)"
proof -
  let ?h1 = "ok_host \<lparr> export_mesh_stl := (\<lambda>p. Some AttributeError),
                 wm_stl_export := (\<lambda>p. Some AttributeError) \<rparr>"
  let ?h2 = "ok_host \<lparr> write_text := (\<lambda>p t. Some OSError),
                 save_as_mainfile := (\<lambda>p. Some RuntimeError) \<rparr>"
  let ?t = "fst (cli_create_simple_tentacle [])"
  let ?b = "fst (create_spaded_lobe_body [])"
  have n: "name ?b = ''TriLobeTentacleBody''"
    by (simp add: create_spaded_lobe_body_def new_obj_def)
  have c1: "select_object ?h1 (name ?t) = None"
    and c2: "export_mesh_stl ?h1 (path_join ''/repo/out'' ''tentacle_body.stl'') = Some AttributeError"
    and c3: "wm_stl_export ?h1 (path_join ''/repo/out'' ''tentacle_body.stl'') = Some AttributeError"
    and c4: "save_as_mainfile ?h1 ''/repo/out/tentacle_body.blend'' = None"
    by (simp_all add: ok_host_def)
  have g1: "non_manifold_count ?h2 (name ?b) = Inr 0"
    and g2: "select_object ?h2 (name ?b) = None"
    and g3: "gen_try_write ?h2 ?b (path_join export_path ''tri_lobe_tentacle.stl'') = Inl OSError"
    and g4: "save_as_mainfile ?h2 ''out/tri_lobe_tentacle.blend'' = Some RuntimeError"
    by (simp_all add: ok_host_def gen_try_write_def Let_def)
  from export_stl_best_effort[where h = ?h1 and ob = ?t and out = "''/repo/out''"
      and filename = "''tentacle_body.stl''"] c1 c2 c3
  have c: "cli_export_stl ?h1 ''/repo/out'' ?t ''tentacle_body.stl'' =
       (case save_as_mainfile ?h1
               (str_replace ''.stl'' ''.blend'' (path_join ''/repo/out'' ''tentacle_body.stl'')) of
          None \<Rightarrow> [SavedBlend (str_replace ''.stl'' ''.blend''
                       (path_join ''/repo/out'' ''tentacle_body.stl'')),
                    Printed (MsgStlUnavailableSavedAs (str_replace ''.stl'' ''.blend''
                       (path_join ''/repo/out'' ''tentacle_body.stl'')))]
        | Some e \<Rightarrow> [Printed (MsgCouldNotExport ''tentacle_body.stl'')], None)"
    by blast
  from export_stl_best_effort[where h = ?h2 and ob = ?b and n = 0
      and filename = "''tri_lobe_tentacle.stl''"] g1 g2 g3
  have gs: "snd (gen_export_stl ?h2 ?b ''tri_lobe_tentacle.stl'') = None"
    and gf: "fst (gen_export_stl ?h2 ?b ''tri_lobe_tentacle.stl'') =
       [Printed (if (0::nat) > 0 then MsgNonManifoldWarning 0 (name ?b) else MsgManifold (name ?b)),
        Printed (MsgExportFailed ''tri_lobe_tentacle.stl'' OSError)]
       @ (case save_as_mainfile ?h2
                 (str_replace ''.stl'' ''.blend'' (path_join export_path ''tri_lobe_tentacle.stl'')) of
            None \<Rightarrow>
              [SavedBlend (str_replace ''.stl'' ''.blend''
                 (path_join export_path ''tri_lobe_tentacle.stl'')),
               Printed (MsgSavedAsBlenderInstead (str_replace ''.stl'' ''.blend''
                 (path_join export_path ''tri_lobe_tentacle.stl'')))]
          | Some e2 \<Rightarrow> [Printed (MsgAllExportMethodsFailed e2)])"
    by blast+
  have c': "cli_export_stl ?h1 ''/repo/out'' ?t ''tentacle_body.stl'' =
     ([SavedBlend ''/repo/out/tentacle_body.blend'',
       Printed (MsgStlUnavailableSavedAs ''/repo/out/tentacle_body.blend'')], None)"
    using c unfolding demo_paths replace_demo c4 by simp
  have gf': "fst (gen_export_stl ?h2 ?b ''tri_lobe_tentacle.stl'') =
     [Printed (MsgManifold ''TriLobeTentacleBody''),
       Printed (MsgExportFailed ''tri_lobe_tentacle.stl'' OSError),
       Printed (MsgAllExportMethodsFailed RuntimeError)]"
    using gf unfolding demo_paths replace_demo g4 n by simp
  show ?thesis using c' gf' gs by (simp add: prod_eq_iff)
qed

section \<open>What the runs create and export\<close>







lemma cli_create_channel_fields:
  assumes "cli_create_channel lobe = Inr c"
  shows "name c = ''Channel_Lobe_'' @ str_nat (lobe + 1)" "booleans c = []"
    "\<exists>r1 r2 d. shape c = Cone r1 r2 d"
  using assms
  by (auto simp: cli_create_channel_def Let_def new_obj_def split: prod.splits sum.splits)

lemma cli_channel_loop_elems:
  assumes "cli_channel_loop ls = Inr cs"
  shows "map name cs = map (\<lambda>l. ''Channel_Lobe_'' @ str_nat (l + 1)) ls
         \<and> (\<forall>c \<in> set cs. booleans c = [] \<and> (\<exists>r1 r2 d. shape c = Cone r1 r2 d))"
  using assms
proof (induction ls arbitrary: cs)
  case Nil
  then show ?case by simp
next
  case (Cons l ls)
  from Cons.prems obtain c cs' where c: "cli_create_channel l = Inr c"
    and cs': "cli_channel_loop ls = Inr cs'" and cs: "cs = c # cs'"
    by (auto split: sum.splits)
  from Cons.IH[OF cs'] cli_create_channel_fields[OF c] show ?case
    by (simp add: cs)
qed

lemma cli_bladder_body_fields:
  "name (cli_bladder_body lobe i sx sy ex ey ze z) =
     ''Bladder_L'' @ str_nat (lobe + 1) @ ''_'' @ str_nat (i + 1)"
  "booleans (cli_bladder_body lobe i sx sy ex ey ze z) = []"
  by (simp_all add: cli_bladder_body_def new_obj_def Let_def)

lemma cli_tentacle_fields:
  "name (fst (cli_create_simple_tentacle vs)) = ''TentacleBody''"
  "booleans (fst (cli_create_simple_tentacle vs)) = []"
  "shape (fst (cli_create_simple_tentacle vs)) =
     Cone (cli_base_radius_mm * MM) (cli_tip_radius_mm * MM) (cli_tentacle_len_mm * MM)"
  by (simp_all add: cli_create_simple_tentacle_def new_obj_def Let_def)

lemma sum_case_Inr: "x = Inr c \<Longrightarrow> case_sum f g x = g c"
  by simp

lemma cli_main_created:
  "set (created (cli_main h d vs)) \<subseteq>
     {fst (cli_create_simple_tentacle vs)} \<union> set cli_create_bladders
       \<union> (case cli_create_channels of Inl e \<Rightarrow> {} | Inr cs \<Rightarrow> set cs)"
proof -
  obtain cs where cs: "cli_create_channels = Inr cs"
    using cli_create_channels_ok by blast
  show ?thesis
    unfolding cli_main_def sum_case_Inr[OF cs]
    by (auto simp: Let_def split: prod.splits option.splits list.splits)
qed

lemma cli_main_no_cylinder:
  assumes "ob \<in> set (created (cli_main h d vs))"
  shows "shape ob \<noteq> Cylinder r dd"
proof -
  obtain cs where cs: "cli_create_channels = Inr cs"
    using cli_create_channels_ok by blast
  from cli_main_created[of h d vs, unfolded sum_case_Inr[OF cs]] assms have
    "ob = fst (cli_create_simple_tentacle vs) \<or> ob \<in> set cli_create_bladders \<or> ob \<in> set cs"
    by auto
  then show ?thesis
  proof (elim disjE)
    assume "ob = fst (cli_create_simple_tentacle vs)"
    then show ?thesis by (simp add: cli_tentacle_fields)
  next
    assume "ob \<in> set cli_create_bladders"
    from cli_bladder_in[OF this] show ?thesis
      by (auto simp: cli_bladder_body_shape)
  next
    assume "ob \<in> set cs"
    with cli_channel_loop_elems[of "py_range 3" cs] cs show ?thesis
      by (auto simp: cli_create_channels_def)
  qed
qed









lemma gen_void_objects_eq:
  "gen_void_objects =
     concat (map create_enhanced_bladder_stack (py_range 3))
     @ create_enhanced_channels @ create_connector_holes"
  by (simp add: gen_void_objects_def Let_def)









section \<open>Successful runs\<close>

lemma ok_host_succeeds: "host_succeeds ok_host"
  by (simp add: host_succeeds_def ok_host_def)





lemma str_nat_digits:
  "str_nat 1 = ''1''" "str_nat 2 = ''2''" "str_nat 3 = ''3''"
  "str_nat (Suc 0) = ''1''" "str_nat (Suc (Suc 0)) = ''2''"
  by (simp_all add: str_nat.simps digit_def)

lemma cli_first_bladder:
  "\<exists>b \<in> set cli_create_bladders. name b = ''Bladder_L1_1''"
proof -
  obtain sx sy zs ex ey ze where p: "cli_channel_path 0 = ((sx, sy, zs), (ex, ey, ze))"
    by (metis prod_cases3)
  let ?f = "\<lambda>i. cli_bladder_body 0 i sx sy ex ey ze ((real i + 1) * cli_bladder_spacing_mm * MM)"
  have "0 \<in> set (py_range 8)" by (simp add: py_range_def)
  then have "?f 0 \<in> set (map ?f (py_range 8))" unfolding set_map by (rule imageI)
  then have "?f 0 \<in> set cli_create_bladders"
    by (simp add: cli_create_bladders_lobes cli_lobe_eq p)
  moreover have "name (?f 0) = ''Bladder_L1_1''"
    by (simp add: cli_bladder_body_fields str_nat_digits)
  ultimately show ?thesis by blast
qed

lemma cli_bladder_lobe_first:
  assumes "name b = ''Bladder_L1_1''"
  shows "cli_bladder_lobe b = Some 0"
  by (simp add: cli_bladder_lobe_def py_range_3 assms str_nat_digits)

lemma cli_join_nonempty:
  assumes "cli_create_channels = Inr cs"
  shows "cli_join_bladders_and_channels cli_create_bladders cs \<noteq> []"
proof -
  from cli_channel_loop_elems[of "py_range 3" cs] assms
  have "map name cs = [''Channel_Lobe_1'', ''Channel_Lobe_2'', ''Channel_Lobe_3'']"
    by (simp add: cli_create_channels_def py_range_3 str_nat_digits)
  then obtain c0 c1 c2 where cs: "cs = [c0, c1, c2]" and n0: "name c0 = ''Channel_Lobe_1''"
    by (auto simp: map_eq_Cons_conv)
  have ch: "filter (\<lambda>c. str_in (''_Lobe_'' @ str_nat (0 + 1)) (name c)) cs = c0 # 
              filter (\<lambda>c. str_in (''_Lobe_'' @ str_nat (0 + 1)) (name c)) [c1, c2]"
    by (simp add: cs n0 str_nat_digits)
  from cli_first_bladder cli_bladder_lobe_first
  have bl: "filter (\<lambda>b. cli_bladder_lobe b = Some 0) cli_create_bladders \<noteq> []"
    by (auto simp: filter_empty_conv)
  have "cli_join_lobe cli_create_bladders cs 0 \<noteq> []"
    unfolding cli_join_lobe_def Let_def ch using bl by simp
  then show ?thesis
    by (simp add: cli_join_bladders_and_channels_def py_range_3)
qed

lemma cli_export_stl_succeeds:
  assumes "host_succeeds h"
  shows "cli_export_stl h out ob filename =
           ([HostStlExport ''export_mesh.stl'' ob (path_join out filename) 1000,
             Printed (MsgExported filename)], None)"
  using assms cli_export_stl_method1 unfolding host_succeeds_def by blast

lemma cli_main_succeeds:
  assumes "host_succeeds h"
  shows "\<exists>hy. raised (cli_main h d vs) = None
     \<and> events (cli_main h d vs) =
        [Rendered (path_join (cli_output_dir d) ''tentacle_camera_view.png''),
         Printed (MsgRendered ''tentacle_camera_view.png''),
         SavedBlend (path_join (cli_output_dir d) ''tentacle_complete.blend''),
         Printed (MsgSavedBlenderFile ''tentacle_complete.blend''),
         HostStlExport ''export_mesh.stl'' (fst (cli_create_simple_tentacle vs))
           (path_join (cli_output_dir d) ''tentacle_body.stl'') 1000,
         Printed (MsgExported ''tentacle_body.stl''),
         HostStlExport ''export_mesh.stl'' hy
           (path_join (cli_output_dir d) ''tentacle_hydraulic_systems.stl'') 1000,
         Printed (MsgExported ''tentacle_hydraulic_systems.stl'')]"
proof -
  obtain cs where cs: "cli_create_channels = Inr cs"
    using cli_create_channels_ok by blast
  from cli_join_nonempty[OF cs] obtain first others
    where j: "cli_join_bladders_and_channels cli_create_bladders cs = first # others"
    by (cases "cli_join_bladders_and_channels cli_create_bladders cs") auto
  from assms have r: "\<forall>p. render_render h p = None" and sv: "\<forall>p. save_as_mainfile h p = None"
    unfolding host_succeeds_def by simp_all
  have ri: "cli_render_image h (cli_output_dir d) ''tentacle_camera_view.png'' ''camera'' =
     ([Rendered (path_join (cli_output_dir d) ''tentacle_camera_view.png''),
       Printed (MsgRendered ''tentacle_camera_view.png'')], None)"
    using r by (simp add: cli_render_image_def Let_def)
  have sb: "cli_save_blend_file h (cli_output_dir d) ''tentacle_complete.blend'' =
     [SavedBlend (path_join (cli_output_dir d) ''tentacle_complete.blend''),
      Printed (MsgSavedBlenderFile ''tentacle_complete.blend'')]"
    using sv by (simp add: cli_save_blend_file_def Let_def)
  have "raised (cli_main h d vs) = None
     \<and> events (cli_main h d vs) =
        [Rendered (path_join (cli_output_dir d) ''tentacle_camera_view.png''),
         Printed (MsgRendered ''tentacle_camera_view.png''),
         SavedBlend (path_join (cli_output_dir d) ''tentacle_complete.blend''),
         Printed (MsgSavedBlenderFile ''tentacle_complete.blend''),
         HostStlExport ''export_mesh.stl'' (fst (cli_create_simple_tentacle vs))
           (path_join (cli_output_dir d) ''tentacle_body.stl'') 1000,
         Printed (MsgExported ''tentacle_body.stl''),
         HostStlExport ''export_mesh.stl'' (first \<lparr> joined := map name others \<rparr>)
           (path_join (cli_output_dir d) ''tentacle_hydraulic_systems.stl'') 1000,
         Printed (MsgExported ''tentacle_hydraulic_systems.stl'')]"
    unfolding cli_main_def sum_case_Inr[OF cs]
    by (simp add: Let_def j ri sb cli_export_stl_succeeds[OF assms])
  then show ?thesis by blast
qed

section \<open>The outputs of a successful run\<close>






section \<open>Boolean operations on the body\<close>

lemma gen_main_created_cores:
  assumes "gen_sacrificial_cores h = Inr c"
  shows "created (gen_main h vs) =
     create_build_volume_reference
     # (fst (create_spaded_lobe_body vs)) \<lparr> materials := [''SiliconeMaterial''] \<rparr>
     # map (\<lambda>void. void \<lparr> hidden := True \<rparr>) gen_void_objects"
  by (simp add: gen_main_def Let_def assms skip_boolean_ops_def
      split: prod.splits option.splits)






section \<open>Connector holes\<close>

lemma connector_holes_eq:
  "create_connector_holes = [gen_connector 0, gen_connector 1, gen_connector 2]"
  by (simp add: create_connector_holes_def py_range_3)

lemma gen_connector_fields:
  "shape (gen_connector i) = Cylinder 0.00635 0.02"
  "name (gen_connector i) = ''Connector_'' @ str_nat (i + 1)"
  "location (gen_connector i) =
     (0.0175 * cos (real i * 2 * pi / 3), 0.0175 * sin (real i * 2 * pi / 3), 0.01)"
  by (simp_all add: gen_connector_def new_obj_def Let_def gen_params)

lemma gen_main_created_names:
  "name ` set gen_void_objects \<subseteq> name ` set (created (gen_main h vs))"
proof (cases "gen_sacrificial_cores h")
  case (Inl e)
  then show ?thesis by (auto simp: gen_main_def Let_def)
next
  case (Inr c)
  have "name ` set (map (\<lambda>void. void \<lparr> hidden := True \<rparr>) gen_void_objects)
          = name ` set gen_void_objects"
    by (simp add: image_image)
  then show ?thesis
    unfolding gen_main_created_cores[OF Inr] by auto
qed

lemma cli_main_created_body:
  "fst (cli_create_simple_tentacle vs) \<in> set (created (cli_main h d vs))"
proof -
  obtain cs where cs: "cli_create_channels = Inr cs"
    using cli_create_channels_ok by blast
  show ?thesis
    unfolding cli_main_def sum_case_Inr[OF cs]
    by (auto simp: Let_def split: prod.splits option.splits list.splits)
qed

text \<open>
  Claim C2 as stated fails for the command-line script: a run on the host where every
  call succeeds ends normally and has created no cylinder at all, so no connector hole.
\<close>

theorem connector_holes_counterexample:
  "raised (cli_main ok_host ''/repo'' []) = None
   \<and> \<not> (\<exists>ob \<in> set (created (cli_main ok_host ''/repo'' [])). \<exists>r dd. shape ob = Cylinder r dd)"
proof -
  from cli_main_succeeds[OF ok_host_succeeds, of "''/repo''" "[]"]
  have "raised (cli_main ok_host ''/repo'' []) = None" by blast
  then show ?thesis using cli_main_no_cylinder by blast
qed

text \<open>
  Claim C2, amended.  Only the generator script makes connector holes: three cylinders
  of radius \<open>connector_radius_mm = 6.35 mm\<close> and length
  \<open>connector_length_mm = 20 mm\<close>, named \<open>Connector_1\<close> to \<open>Connector_3\<close>, one per
  lobe at the angles \<open>i * 2 pi / 3\<close>, 17.5 mm from the axis and centred at height
  10 mm, so standing on the base plane; they are among the objects its \<open>main\<close>
  creates.  The command-line script defines the two connector parameters with the same
  values but never uses them: no object it creates is a cylinder.
\<close>

theorem connector_holes:
  "map shape create_connector_holes =
     [Cylinder 0.00635 0.02, Cylinder 0.00635 0.02, Cylinder 0.00635 0.02]
   \<and> gen_connector_radius_mm * MM = 0.00635 \<and> gen_connector_length_mm * MM = 0.02
   \<and> map name create_connector_holes = [''Connector_1'', ''Connector_2'', ''Connector_3'']
   \<and> map location create_connector_holes =
       map (\<lambda>i. (0.0175 * cos (real i * 2 * pi / 3), 0.0175 * sin (real i * 2 * pi / 3), 0.01))
         [0, 1, 2]
   \<and> name ` set create_connector_holes \<subseteq> name ` set (created (gen_main h vs))
   \<and> (\<forall>ob \<in> set (created (cli_main h d cvs)). \<forall>r dd. shape ob \<noteq> Cylinder r dd)
   \<and> cli_connector_radius_mm = 6.35 \<and> cli_connector_length_mm = 20"
proof -
  have 1: "map shape create_connector_holes =
     [Cylinder 0.00635 0.02, Cylinder 0.00635 0.02, Cylinder 0.00635 0.02]"
    by (simp add: connector_holes_eq gen_connector_fields)
  have 2: "gen_connector_radius_mm * MM = 0.00635" "gen_connector_length_mm * MM = 0.02"
    by (simp_all add: gen_params)
  have 3: "map name create_connector_holes = [''Connector_1'', ''Connector_2'', ''Connector_3'']"
    by (simp add: connector_holes_eq gen_connector_fields str_nat_digits)
  have 4: "map location create_connector_holes =
       map (\<lambda>i. (0.0175 * cos (real i * 2 * pi / 3), 0.0175 * sin (real i * 2 * pi / 3), 0.01))
         [0, 1, 2]"
    by (simp add: connector_holes_eq gen_connector_fields)
  have "set create_connector_holes \<subseteq> set gen_void_objects"
    by (auto simp: gen_void_objects_eq)
  then have 5: "name ` set create_connector_holes \<subseteq> name ` set (created (gen_main h vs))"
    using gen_main_created_names[of h vs] by blast
  have 6: "\<forall>ob \<in> set (created (cli_main h d cvs)). \<forall>r dd. shape ob \<noteq> Cylinder r dd"
    using cli_main_no_cylinder by blast
  have 7: "cli_connector_radius_mm = 6.35" "cli_connector_length_mm = 20"
    by (simp_all add: cli_params)
  show ?thesis using 1 2 3 4 5 6 7 by blast
qed

text \<open>The body of the command-line script is among the objects created: a cone.\<close>

theorem connector_holes_witness:
  "fst (cli_create_simple_tentacle []) \<in> set (created (cli_main ok_host ''/repo'' []))
   \<and> (\<forall>r dd. shape (fst (cli_create_simple_tentacle [])) \<noteq> Cylinder r dd)
   \<and> map name create_connector_holes = [''Connector_1'', ''Connector_2'', ''Connector_3'']"
  using connector_holes[of ok_host "[]" "''/repo''" "[]"] cli_main_created_body[of "[]" ok_host "''/repo''"]
  by blast

end
